theory Spec2Isabelle
  imports Main "HOL-Library.Sublist" "HOL-Library.Word"
begin

section \<open>The Go standard-library string functions the program calls\<close>

text \<open>
  Go strings are byte sequences; \<^typ>\<open>string\<close> is a list of 8-bit characters.
  The prefix and suffix functions are the library's for all arguments. \<open>Index\<close>,
  \<open>Count\<close> and \<open>SplitN\<close> are the library's for a non-empty separator; the program
  calls them with the literals \<open>.service.\<close>, \<open>.\<close> and \<open>:\<close> only.
\<close>

definition HasPrefix :: "string \<Rightarrow> string \<Rightarrow> bool" where
  "HasPrefix s pre = prefix pre s"

definition HasSuffix :: "string \<Rightarrow> string \<Rightarrow> bool" where
  "HasSuffix s suf = suffix suf s"

definition TrimPrefix :: "string \<Rightarrow> string \<Rightarrow> string" where
  "TrimPrefix s pre = (if HasPrefix s pre then drop (length pre) s else s)"

definition TrimSuffix :: "string \<Rightarrow> string \<Rightarrow> string" where
  "TrimSuffix s suf = (if HasSuffix s suf then take (length s - length suf) s else s)"

text \<open>\<open>strings.Index\<close>: the position of the first occurrence, \<open>None\<close> for Go's \<open>-1\<close>.\<close>

fun Index :: "string \<Rightarrow> string \<Rightarrow> nat option" where
  "Index [] sep = (if sep = [] then Some 0 else None)"
| "Index (c # cs) sep =
     (if prefix sep (c # cs) then Some 0 else map_option Suc (Index cs sep))"

definition Contains :: "string \<Rightarrow> string \<Rightarrow> bool" where
  "Contains s sub = (Index s sub \<noteq> None)"

text \<open>
  \<open>strings.Count\<close> for a non-empty \<open>sub\<close>: the number of non-overlapping occurrences,
  scanning from the left. The first argument of \<open>countFrom\<close> is the number of bytes
  still to skip after a match.
\<close>

fun countFrom :: "nat \<Rightarrow> string \<Rightarrow> string \<Rightarrow> nat" where
  "countFrom k [] sub = 0"
| "countFrom (Suc k) (c # cs) sub = countFrom k cs sub"
| "countFrom 0 (c # cs) sub =
     (if prefix sub (c # cs) then Suc (countFrom (length sub - 1) cs sub)
      else countFrom 0 cs sub)"

definition Count :: "string \<Rightarrow> string \<Rightarrow> nat" where
  "Count s sub = countFrom 0 s sub"

text \<open>
  \<open>strings.SplitN(s, sep, n)\<close> for a non-empty \<open>sep\<close> and \<open>n \<ge> 0\<close>: at most \<open>n\<close>
  pieces, the last one the unsplit remainder.
\<close>

fun SplitN :: "string \<Rightarrow> string \<Rightarrow> nat \<Rightarrow> string list" where
  "SplitN s sep 0 = []"
| "SplitN s sep (Suc 0) = [s]"
| "SplitN s sep (Suc (Suc n)) =
     (case Index s sep of
        None \<Rightarrow> [s]
      | Some m \<Rightarrow> take m s # SplitN (drop (m + length sep) s) sep (Suc n))"

text \<open>
  \<open>strings.ToLower\<close> on the ASCII letters. On other bytes the library maps Unicode
  letters as well, but no code point outside \<open>A\<close>..\<open>Z\<close> lowers to one of the letters
  of \<open>http\<close> or \<open>https\<close>, the only strings the program compares the result with.
\<close>

definition toLowerByte :: "char \<Rightarrow> char" where
  "toLowerByte c =
     (if (65::nat) \<le> of_char c \<and> of_char c \<le> (90::nat)
      then char_of (of_char c + (32::nat)) else c)"

definition ToLower :: "string \<Rightarrow> string" where
  "ToLower s = map toLowerByte s"

text \<open>\<open>strings.Join\<close>.\<close>

fun Join :: "string list \<Rightarrow> string \<Rightarrow> string" where
  "Join [] sep = []"
| "Join [x] sep = x"
| "Join (x # y # ys) sep = x @ sep @ Join (y # ys) sep"

text \<open>Go's \<open><\<close> on strings: lexicographic on the bytes.\<close>

fun strLess :: "string \<Rightarrow> string \<Rightarrow> bool" where
  "strLess [] [] = False"
| "strLess [] (y # ys) = True"
| "strLess (x # xs) [] = False"
| "strLess (x # xs) (y # ys) =
     ((of_char x :: nat) < of_char y \<or> (x = y \<and> strLess xs ys))"

text \<open>The verb \<open>%d\<close> of \<open>fmt.Sprintf\<close> on an unsigned value: its decimal digits.\<close>

definition digitChar :: "nat \<Rightarrow> char" where
  "digitChar d = ''0123456789'' ! d"

fun decimal :: "nat \<Rightarrow> string" where
  "decimal n = (if n < 10 then [digitChar n] else decimal (n div 10) @ [digitChar (n mod 10)])"

declare decimal.simps [simp del]

section \<open>Hostname parsing\<close>

text \<open>
  \<open>parseConsulAddress\<close> (main.go, lines 426 to 443). The first component of the
  result is the value the source returns as \<open>svcName\<close>, the second the one it
  returns as \<open>svcType\<close>.
\<close>

definition parseConsulAddress :: "string \<Rightarrow> string \<times> string" where
  "parseConsulAddress hostname =
     (let serviceSplit = SplitN hostname ''.service.'' 2;
          svcName = serviceSplit ! 0;
          (svcName, svcType) =
            (if Contains svcName ''.''
             then let parts = SplitN svcName ''.'' 2
                  in (TrimPrefix (parts ! 0) ''_'', TrimPrefix (parts ! 1) ''_'')
             else (svcName, ''''))
      in if Count svcType ''.'' > 0 then ('''', '''') else (svcName, svcType))"

section \<open>URLs and the library functions on them\<close>

text \<open>
  The fields of \<open>url.URL\<close> that the program reads or writes, and \<open>Fragment\<close>,
  which \<open>url.Parse\<close> splits off the query. \<open>url.Parse\<close> and
  \<open>(*URL).String\<close> belong to the Go standard library, not to this program: they are
  parameters of the model. \<open>urlParse\<close> returns \<open>Inl\<close> with the error text when the
  library returns a non-nil error, and \<open>Inr\<close> with the parsed URL otherwise.

  \<open>sort.Slice\<close> is library code too. In every Go release it sorts a slice of at most
  six elements by the insertion sort \<open>insertionSort\<close> below alone; on longer slices
  the algorithm differs between releases (quicksort after a Shell pass, later
  pattern-defeating quicksort), and with a \<open>less\<close> that is no ordering its result is
  that of the algorithm, so that part is a parameter, \<open>sortLong\<close>.
\<close>

record url =
  Scheme :: string
  Host :: string
  Path :: string
  RawQuery :: string
  Fragment :: string

record 'a stdlib =
  urlParse :: "string \<Rightarrow> string + url"
  urlString :: "url \<Rightarrow> string"
  sortLong :: "('a \<Rightarrow> 'a \<Rightarrow> bool) \<Rightarrow> 'a list \<Rightarrow> 'a list"

text \<open>
  \<open>buildUrlWithPort\<close> (lines 370 to 380). \<open>Inl err\<close> is the source's \<open>(nil, err)\<close>,
  \<open>Inr u\<close> its \<open>(u, nil)\<close>. The port is a \<open>uint16\<close>.
\<close>

definition buildUrlWithPort ::
  "'a stdlib \<Rightarrow> string \<Rightarrow> url \<Rightarrow> string \<Rightarrow> 16 word \<Rightarrow> string + url" where
  "buildUrlWithPort lib hostname origUrl scheme port =
     (case urlParse lib (urlString lib origUrl) of
        Inl err \<Rightarrow> Inl err
      | Inr u \<Rightarrow> Inr (u\<lparr>Scheme := scheme, Host := hostname @ '':'' @ decimal (unat port)\<rparr>))"

section \<open>Redirect options\<close>

record RedirectOption =
  Hostname :: string
  Tags :: "string list"
  Port :: "16 word"

text \<open>\<open>guessScheme\<close> (lines 382 to 392): the loop over \<open>r.Tags\<close> as a recursion.\<close>

fun guessSchemeTags :: "string list \<Rightarrow> string" where
  "guessSchemeTags [] = ''http''"
| "guessSchemeTags (tag # tags) =
     (if ToLower tag = ''http'' then ''http''
      else if ToLower tag = ''https'' then ''https''
      else guessSchemeTags tags)"

definition guessScheme :: "RedirectOption \<Rightarrow> string" where
  "guessScheme r = guessSchemeTags (Tags r)"

text \<open>\<open>BuildURL\<close> (lines 366 to 368).\<close>

definition BuildURL :: "'a stdlib \<Rightarrow> RedirectOption \<Rightarrow> string \<Rightarrow> url \<Rightarrow> string + url" where
  "BuildURL lib r hostname origUrl =
     buildUrlWithPort lib hostname origUrl (guessScheme r) (Port r)"

section \<open>Sorting the options\<close>

text \<open>
  The library's insertion sort: for \<open>i\<close> from 1 on, the element at \<open>i\<close> is swapped
  with its left neighbour as long as the comparison \<open>lt\<close> (Go's \<open>less\<close>) holds of it and that neighbour.
  \<open>insertLeft\<close> takes the part already handled in reverse order.
\<close>

fun insertLeft :: "('a \<Rightarrow> 'a \<Rightarrow> bool) \<Rightarrow> 'a list \<Rightarrow> 'a \<Rightarrow> 'a list" where
  "insertLeft lt [] x = [x]"
| "insertLeft lt (y # ys) x =
     (if lt x y then y # insertLeft lt ys x else x # y # ys)"

definition insertionSort :: "('a \<Rightarrow> 'a \<Rightarrow> bool) \<Rightarrow> 'a list \<Rightarrow> 'a list" where
  "insertionSort lt xs = rev (foldl (insertLeft lt) [] xs)"

definition sortSlice :: "'a stdlib \<Rightarrow> ('a \<Rightarrow> 'a \<Rightarrow> bool) \<Rightarrow> 'a list \<Rightarrow> 'a list" where
  "sortSlice lib lt xs =
     (if length xs \<le> 6 then insertionSort lt xs else sortLong lib lt xs)"

text \<open>The comparison function passed to \<open>sort.Slice\<close> (lines 419 to 421).\<close>

definition optionLess :: "RedirectOption \<Rightarrow> RedirectOption \<Rightarrow> bool" where
  "optionLess a b = (strLess (Hostname a) (Hostname b) \<and> Port a < Port b)"

definition sortOptions ::
  "RedirectOption stdlib \<Rightarrow> RedirectOption list \<Rightarrow> RedirectOption list" where
  "sortOptions lib options = sortSlice lib optionLess options"

section \<open>The server\<close>

text \<open>The command-line flags the handler reads (lines 18 to 25).\<close>

record flags =
  nomadUIHostname :: string
  consulUIHostname :: string
  redirectToNomadUI :: bool
  hostnameSuffix :: string

text \<open>
  An entry of the catalog as the Consul client returns it: the fields the program
  reads. \<open>ServicePort\<close> is a Go \<open>int\<close>.
\<close>

record CatalogService =
  Node :: string
  ServiceTags :: "string list"
  ServicePort :: int

text \<open>
  \<open>Server\<close> (lines 83 to 86). \<open>consul\<close> stands for
  \<open>s.consul.Catalog().Service(name, tag, opts)\<close>: the entries, or \<open>Inl\<close> with the
  error.
\<close>

record Server =
  consul :: "string \<Rightarrow> string \<Rightarrow> string + CatalogService list"
  customRoutes :: "string \<rightharpoonup> string"

record request =
  ReqHost :: string
  URL :: url

text \<open>One element of \<open>data.Results\<close> (lines 296 to 306).\<close>

record resultRow =
  rowUrl :: url
  rowFullHostname :: string
  rowPort :: "16 word"
  rowTags :: string

text \<open>The templates of lines 27 to 59, each with the data it is executed on.\<close>

datatype template =
    UrlBuildingError string string
  | HostnameParseError string
  | ConsulQueryingError string string
  | NoResults string string
  | ResultsList string string "resultRow list"
  | QuickLinks string string
  | HostnameTips

text \<open>
  What the handler does to the outside, in order: the calls on the response writer,
  \<open>http.Redirect\<close>, the execution of a template on the response, and the catalog
  query. Writes to the response are taken to succeed (the \<open>http.Error\<close> fallbacks
  after a failed \<open>Execute\<close> are left out), and logging is not modelled.
\<close>

datatype effect =
    SetHeader string string
  | WriteHeader nat
  | Write string
  | Redirect string nat
  | Execute template
  | CatalogQuery string string

text \<open>A call of the handler returns or panics, after the effects listed.\<close>

datatype outcome = Returned "effect list" | Panicked "effect list"

definition getHostname :: "request \<Rightarrow> string" where
  "getHostname req = SplitN (ReqHost req) '':'' 2 ! 0"

definition addHostnameSuffix :: "flags \<Rightarrow> string \<Rightarrow> string" where
  "addHostnameSuffix fl hostname =
     (if length (hostnameSuffix fl) = 0 then hostname
      else hostname @ ''.'' @ TrimPrefix (hostnameSuffix fl) ''.'')"

definition printHostnameTips :: "effect list" where
  "printHostnameTips = [Execute HostnameTips]"

definition printQuickLinks :: "flags \<Rightarrow> string \<Rightarrow> effect list" where
  "printQuickLinks fl hostname =
     (let nomadHost =
            (if length (nomadUIHostname fl) > 0 then nomadUIHostname fl else hostname);
          consulHost =
            (if length (consulUIHostname fl) > 0 then consulUIHostname fl else hostname)
      in [Execute (QuickLinks nomadHost consulHost)])"

text \<open>
  \<open>queryConsulForHostname\<close> (lines 394 to 424): the query it makes, if any, and its
  result. \<open>toOption\<close> is the struct literal of lines 411 to 415, with the conversion
  \<open>uint16(svc.ServicePort)\<close>.
\<close>

definition toOption :: "CatalogService \<Rightarrow> RedirectOption" where
  "toOption svc =
     \<lparr>Hostname = Node svc, Tags = ServiceTags svc, Port = word_of_int (ServicePort svc)\<rparr>"

definition queryConsulForHostname ::
  "RedirectOption stdlib \<Rightarrow> Server \<Rightarrow> string
     \<Rightarrow> effect list \<times> (string + RedirectOption list)" where
  "queryConsulForHostname lib s hostname =
     (let (svcName, svcType) = parseConsulAddress hostname
      in if svcName = '''' \<and> svcType = '''' then ([], Inr [])
         else case consul s svcName svcType of
                Inl err \<Rightarrow> ([CatalogQuery svcName svcType], Inl err)
              | Inr services \<Rightarrow>
                  ([CatalogQuery svcName svcType],
                   Inr (sortOptions lib (map toOption services))))"

text \<open>
  The loop of lines 283 to 307 over the options: \<open>Inl\<close> when a \<open>BuildURL\<close> fails
  (the source returns from the handler there), the rows otherwise. \<open>optionRow\<close> is
  the element appended for an option once its URL \<open>u\<close> is built (lines 291 to 306).
\<close>

definition optionRow :: "flags \<Rightarrow> RedirectOption \<Rightarrow> url \<Rightarrow> resultRow" where
  "optionRow fl opt u =
     (let tags = Join (Tags opt) '', '';
          tags = (if length tags > 0 then '' ('' @ tags @ '')'' else tags)
      in \<lparr>rowUrl = u, rowFullHostname = addHostnameSuffix fl (Hostname opt),
          rowPort = Port opt, rowTags = tags\<rparr>)"

fun buildRows ::
  "'a stdlib \<Rightarrow> flags \<Rightarrow> url \<Rightarrow> RedirectOption list \<Rightarrow> string + resultRow list" where
  "buildRows lib fl origUrl [] = Inr []"
| "buildRows lib fl origUrl (opt # rest) =
     (let fullHostname = addHostnameSuffix fl (Hostname opt)
      in case BuildURL lib opt fullHostname origUrl of
           Inl err \<Rightarrow> Inl err
         | Inr u \<Rightarrow>
             (case buildRows lib fl origUrl rest of
                Inl err \<Rightarrow> Inl err
              | Inr rows \<Rightarrow> Inr (optionRow fl opt u # rows)))"

text \<open>
  Lines 178 to 316 of \<open>ServeHTTP\<close>: the hostname as a Consul service address.
\<close>

definition serveService ::
  "RedirectOption stdlib \<Rightarrow> flags \<Rightarrow> Server \<Rightarrow> request \<Rightarrow> string \<Rightarrow> outcome" where
  "serveService lib fl s req hostname =
     (let (svcName, svcType) = parseConsulAddress hostname
      in if svcName = ''''
         then Returned ([SetHeader ''Content-Type'' ''text/html'',
                         Execute (HostnameParseError hostname)]
                        @ printHostnameTips @ printQuickLinks fl hostname)
         else
           let (queried, res) = queryConsulForHostname lib s hostname
           in case res of
                Inl err \<Rightarrow>
                  Returned (queried @ [SetHeader ''Content-Type'' ''text/html'',
                                       WriteHeader 500,
                                       Execute (ConsulQueryingError hostname err)])
              | Inr result \<Rightarrow>
                  if length result = 1
                  then (case BuildURL lib (result ! 0) hostname (URL req) of
                          Inl err \<Rightarrow>
                            Returned (queried @ [SetHeader ''Content-Type'' ''text/html'',
                                                 WriteHeader 500,
                                                 Execute (UrlBuildingError hostname err)])
                        | Inr u \<Rightarrow> Returned (queried @ [Redirect (urlString lib u) 307]))
                  else
                    let portTypeSuffix =
                          (if length svcType > 0
                           then '' and port type <code>'' @ svcType @ ''</code>''
                           else '''')
                    in if length result = 0
                       then Returned (queried @ [SetHeader ''Content-Type'' ''text/html'',
                                                 WriteHeader 404,
                                                 Execute (NoResults svcName portTypeSuffix)]
                                      @ printHostnameTips @ printQuickLinks fl hostname)
                       else (case buildRows lib fl (URL req) result of
                               Inl err \<Rightarrow>
                                 Returned (queried @ [SetHeader ''Content-Type'' ''text/html''])
                             | Inr rows \<Rightarrow>
                                 Returned (queried @ [SetHeader ''Content-Type'' ''text/html'',
                                                      Execute (ResultsList svcName
                                                                 portTypeSuffix rows)]
                                           @ printQuickLinks fl hostname)))"

text \<open>
  Lines 147 to 176: the redirect to the Nomad UI. When \<open>buildUrlWithPort\<close> fails,
  \<open>redirUrl\<close> is nil and line 150 reads \<open>redirUrl.Path\<close> before line 155 looks at
  \<open>err\<close>: the handler panics there with a nil pointer dereference. The block of
  lines 155 to 172 runs only when \<open>err\<close> is not nil, so it is never reached.
\<close>

definition serveNomadUI :: "'a stdlib \<Rightarrow> request \<Rightarrow> string \<Rightarrow> outcome" where
  "serveNomadUI lib req hostname =
     (case buildUrlWithPort lib hostname (URL req) ''http'' 4646 of
        Inl err \<Rightarrow> Panicked []
      | Inr redirUrl \<Rightarrow>
          (let redirUrl =
                 (if Path redirUrl = '''' \<or> Path redirUrl = ''/''
                  then redirUrl\<lparr>Path := ''/ui/clients'',
                                RawQuery := ''search='' @ hostname\<rparr>
                  else redirUrl)
           in Returned [Redirect (urlString lib redirUrl) 307]))"

text \<open>
  Lines 133 to 316: what the handler does once the path is neither of the two
  probes. \<open>afterRoutes\<close> is the code from line 147 on, reached when no custom route
  matches.
\<close>

definition serveHostname ::
  "RedirectOption stdlib \<Rightarrow> flags \<Rightarrow> Server \<Rightarrow> request \<Rightarrow> outcome" where
  "serveHostname lib fl s req =
     (let hostname = getHostname req;
          afterRoutes =
            (if redirectToNomadUI fl \<and>
                (HasSuffix hostname (hostnameSuffix fl) \<or> hostname = nomadUIHostname fl)
             then serveNomadUI lib req hostname
             else serveService lib fl s req hostname)
      in case customRoutes s hostname of
           Some redirUrl \<Rightarrow> Returned [Redirect redirUrl 307]
         | None \<Rightarrow>
             if HasSuffix hostname (''.'' @ hostnameSuffix fl)
             then (let cutHostname = TrimSuffix hostname (''.'' @ hostnameSuffix fl)
                   in case customRoutes s cutHostname of
                        Some redirUrl \<Rightarrow> Returned [Redirect redirUrl 307]
                      | None \<Rightarrow> afterRoutes)
             else afterRoutes)"

text \<open>\<open>ServeHTTP\<close> (lines 117 to 316).\<close>

definition ServeHTTP ::
  "RedirectOption stdlib \<Rightarrow> flags \<Rightarrow> Server \<Rightarrow> request \<Rightarrow> outcome" where
  "ServeHTTP lib fl s req =
     (if HasPrefix (TrimPrefix (Path (URL req)) ''/'') ''health''
      then Returned [WriteHeader 200, Write ''ok'']
      else if HasPrefix (TrimPrefix (Path (URL req)) ''/'') ''metrics''
      then Returned [WriteHeader 200]
      else serveHostname lib fl s req)"

section \<open>The URL library on request URLs\<close>

text \<open>
  What \<open>(*URL).String\<close> and \<open>url.Parse\<close> do on the URLs a request carries, as far
  as the fields of \<open>url\<close> go: \<open>String\<close> on a URL without scheme, host and fragment
  whose path begins with a slash, and \<open>Parse\<close> on a text that, up to its first
  \<open>#\<close>, begins with one slash and not with two. On everything else (schemes,
  authorities, opaque and relative URLs) the library stays a parameter, \<open>other\<close>.
  \<open>quote\<close> stands for \<open>strconv.Quote\<close>, which the library uses in its error
  texts. The fields of \<open>url.URL\<close> that \<open>url\<close> does not have (user information,
  \<open>Opaque\<close>, \<open>RawPath\<close>, \<open>ForceQuery\<close>) are taken to be unset.
\<close>

text \<open>\<open>strings.Cut\<close>: the parts before and after the first occurrence of \<open>sep\<close>.\<close>

definition Cut :: "string \<Rightarrow> string \<Rightarrow> string \<times> string" where
  "Cut s sep =
     (case Index s sep of
        None \<Rightarrow> (s, '''')
      | Some m \<Rightarrow> (take m s, drop (m + length sep) s))"

text \<open>
  \<open>shouldEscape(c, encodePath)\<close>: letters, digits, the marks \<open>-_.~\<close> and the
  reserved characters other than \<open>?\<close> are printed as they are.
\<close>

definition alnum :: "char \<Rightarrow> bool" where
  "alnum c =
     (let n = (of_char c :: nat)
      in 97 \<le> n \<and> n \<le> 122 \<or> 65 \<le> n \<and> n \<le> 90 \<or> 48 \<le> n \<and> n \<le> 57)"

definition shouldEscapePath :: "char \<Rightarrow> bool" where
  "shouldEscapePath c = (\<not> alnum c \<and> c \<notin> set ''-_.~$&+,/:;=@'')"

text \<open>\<open>escape(s, encodePath)\<close>: a byte to escape becomes \<open>%\<close> and two hex digits.\<close>

definition upperhex :: string where
  "upperhex = ''0123456789ABCDEF''"

definition escapeByte :: "char \<Rightarrow> string" where
  "escapeByte c =
     [CHR ''%'', upperhex ! ((of_char c :: nat) div 16), upperhex ! ((of_char c :: nat) mod 16)]"

definition escapePath :: "string \<Rightarrow> string" where
  "escapePath s = concat (map (\<lambda>c. if shouldEscapePath c then escapeByte c else [c]) s)"

text \<open>
  \<open>unescape\<close> in the modes for paths and fragments: \<open>%\<close> with two hex digits is
  the byte they denote, \<open>%\<close> with anything else is an error that cites up to three
  bytes from the \<open>%\<close> on, and every other byte stands for itself.
\<close>

definition unhex :: "char \<Rightarrow> nat option" where
  "unhex c =
     (let n = (of_char c :: nat)
      in if 48 \<le> n \<and> n \<le> 57 then Some (n - 48)
         else if 97 \<le> n \<and> n \<le> 102 then Some (n - 87)
         else if 65 \<le> n \<and> n \<le> 70 then Some (n - 55)
         else None)"

fun unescape :: "(string \<Rightarrow> string) \<Rightarrow> string \<Rightarrow> string + string" where
  "unescape quote [] = Inr []"
| "unescape quote (c # cs) =
     (if c = CHR ''%''
      then (case cs of
              h1 # h2 # rest \<Rightarrow>
                (case unhex h1 of
                   None \<Rightarrow> Inl (''invalid URL escape '' @ quote (take 3 (c # cs)))
                 | Some a \<Rightarrow>
                     (case unhex h2 of
                        None \<Rightarrow> Inl (''invalid URL escape '' @ quote (take 3 (c # cs)))
                      | Some b \<Rightarrow>
                          (case unescape quote rest of
                             Inl err \<Rightarrow> Inl err
                           | Inr t \<Rightarrow> Inr (char_of (a * 16 + b) # t))))
            | _ \<Rightarrow> Inl (''invalid URL escape '' @ quote (take 3 (c # cs))))
      else (case unescape quote cs of
              Inl err \<Rightarrow> Inl err
            | Inr t \<Rightarrow> Inr (c # t)))"

text \<open>\<open>stringContainsCTLByte\<close> tests the bytes below the space and the byte 127.\<close>

definition ctlByte :: "char \<Rightarrow> bool" where
  "ctlByte c = ((of_char c :: nat) < 32 \<or> (of_char c :: nat) = 127)"

text \<open>
  \<open>String\<close> prints the escaped path and, when the query is not empty, \<open>?\<close> and the
  query as it is.
\<close>

definition netUrlString :: "(url \<Rightarrow> string) \<Rightarrow> url \<Rightarrow> string" where
  "netUrlString other u =
     (if Scheme u = '''' \<and> Host u = '''' \<and> Fragment u = '''' \<and> HasPrefix (Path u) ''/''
      then escapePath (Path u) @ (if RawQuery u = '''' then '''' else ''?'' @ RawQuery u)
      else other u)"

text \<open>
  \<open>Parse\<close> cuts the fragment off at the first \<open>#\<close>, refuses a control byte in
  what is left, cuts the query off at the first \<open>?\<close>, and unescapes the path and
  the fragment. (For a text that ends in its only \<open>?\<close> the library sets
  \<open>ForceQuery\<close> instead of cutting; path and query are the same.)
\<close>

definition netUrlParse ::
  "(string \<Rightarrow> string) \<Rightarrow> (string \<Rightarrow> string + url) \<Rightarrow> string \<Rightarrow> string + url" where
  "netUrlParse quote other rawURL =
     (let (u, frag) = Cut rawURL ''#''
      in if \<not> (HasPrefix u ''/'' \<and> \<not> HasPrefix u ''//'') then other rawURL
         else if list_ex ctlByte u
         then Inl (''parse '' @ quote u @ '': net/url: invalid control character in URL'')
         else let (rest, query) = Cut u ''?''
              in case unescape quote rest of
                   Inl err \<Rightarrow> Inl (''parse '' @ quote u @ '': '' @ err)
                 | Inr path \<Rightarrow>
                     (case unescape quote frag of
                        Inl err \<Rightarrow> Inl (''parse '' @ quote rawURL @ '': '' @ err)
                      | Inr fragment \<Rightarrow>
                          Inr \<lparr>Scheme = '''', Host = '''', Path = path, RawQuery = query,
                               Fragment = fragment\<rparr>))"

definition netUrl ::
  "(string \<Rightarrow> string) \<Rightarrow> (string \<Rightarrow> string + url) \<Rightarrow> (url \<Rightarrow> string)
     \<Rightarrow> (('a \<Rightarrow> 'a \<Rightarrow> bool) \<Rightarrow> 'a list \<Rightarrow> 'a list) \<Rightarrow> 'a stdlib" where
  "netUrl quote otherParse otherString long =
     \<lparr>urlParse = netUrlParse quote otherParse, urlString = netUrlString otherString,
      sortLong = long\<rparr>"

section \<open>Concrete inputs\<close>

text \<open>
  The library of the concrete runs below is \<open>netUrl\<close> with the rest filled in for
  the inputs the runs use. \<open>plainQuote\<close> is \<open>strconv.Quote\<close> on printable ASCII
  without quote or backslash. \<open>plainString\<close> is what \<open>(*URL).String\<close> returns for
  a URL without user information whose parts need no escaping and whose path is
  empty or begins with a slash. \<open>tableParse\<close> has what \<open>url.Parse\<close> returns on
  \<open>//foo:bar/\<close>: it reads what follows a leading \<open>//\<close> as an authority, in which
  a port must be numeric. A server can receive that text as the target of a request
  line: for a target that begins with a slash, \<open>url.ParseRequestURI\<close> takes
  everything up to the first \<open>?\<close> as the path and the rest as the query, and looks
  for neither an authority nor a fragment.
\<close>

definition plainQuote :: "string \<Rightarrow> string" where
  "plainQuote s = CHR 0x22 # s @ [CHR 0x22]"

definition plainString :: "url \<Rightarrow> string" where
  "plainString u =
     (if Scheme u = '''' then '''' else Scheme u @ '':'')
     @ (if (Scheme u \<noteq> '''' \<or> Host u \<noteq> '''') \<and> (Host u \<noteq> '''' \<or> Path u \<noteq> '''')
        then ''//'' @ Host u else '''')
     @ Path u
     @ (if RawQuery u = '''' then '''' else ''?'' @ RawQuery u)
     @ (if Fragment u = '''' then '''' else ''#'' @ Fragment u)"

definition tableParse :: "string \<Rightarrow> string + url" where
  "tableParse raw =
     (if raw = ''//foo:bar/''
      then Inl ''parse \"//foo:bar/\": invalid port \":bar\" after host''
      else Inl ''not in the table'')"

definition testLib :: "RedirectOption stdlib" where
  "testLib = netUrl plainQuote tableParse plainString insertionSort"

definition pathUrl :: "string \<Rightarrow> string \<Rightarrow> url" where
  "pathUrl p q = \<lparr>Scheme = '''', Host = '''', Path = p, RawQuery = q, Fragment = ''''\<rparr>"

text \<open>
  A catalog with two nodes for the service \<open>web\<close> and one for \<open>solo\<close>, and one
  custom route.
\<close>

definition testCatalog :: "string \<Rightarrow> string \<Rightarrow> string + CatalogService list" where
  "testCatalog name tag =
     (if name = ''web'' \<and> tag = ''''
      then Inr [\<lparr>Node = ''n1'', ServiceTags = [''v2'', ''HTTPS''], ServicePort = 8443\<rparr>,
                \<lparr>Node = ''n2'', ServiceTags = [], ServicePort = 80\<rparr>]
      else if name = ''solo'' \<and> tag = ''''
      then Inr [\<lparr>Node = ''n3'', ServiceTags = [''http''], ServicePort = 9000\<rparr>]
      else Inr [])"

definition testServer :: Server where
  "testServer = \<lparr>consul = testCatalog, customRoutes = [''docs'' \<mapsto> ''http://wiki.example/'']\<rparr>"

definition testFlags :: "bool \<Rightarrow> flags" where
  "testFlags ui =
     \<lparr>nomadUIHostname = '''', consulUIHostname = '''', redirectToNomadUI = ui,
      hostnameSuffix = ''node.example''\<rparr>"

section \<open>Facts about the string functions\<close>

lemma SplitN_two:
  "SplitN s sep 2 =
     (case Index s sep of None \<Rightarrow> [s] | Some m \<Rightarrow> [take m s, drop (m + length sep) s])"
  by (simp add: numeral_2_eq_2 split: option.split)

text \<open>
  \<open>Index\<close> finds the first occurrence: the separator stands at the position it
  returns and at no earlier one, and nowhere when it returns \<open>None\<close>.
\<close>

lemma Index_Some_occurs: "Index s sep = Some m \<Longrightarrow> m \<le> length s \<and> prefix sep (drop m s)"
proof (induction s arbitrary: m)
  case Nil
  then show ?case by (simp split: if_splits)
next
  case (Cons c cs)
  then show ?case by (auto split: if_splits)
qed

lemma Index_Some_first: "Index s sep = Some m \<Longrightarrow> k < m \<Longrightarrow> \<not> prefix sep (drop k s)"
proof (induction s arbitrary: m k)
  case Nil
  then show ?case by (simp split: if_splits)
next
  case (Cons c cs)
  then show ?case by (cases k) (auto split: if_splits)
qed

lemma Index_None_absent: "Index s sep = None \<Longrightarrow> \<not> prefix sep (drop k s)"
proof (induction s arbitrary: k)
  case Nil
  then show ?case by (simp split: if_splits)
next
  case (Cons c cs)
  then show ?case by (cases k) (auto split: if_splits)
qed

lemma SplitN_two_pieces:
  assumes "Index s sep = Some m"
  shows "SplitN s sep 2 = [take m s, drop (m + length sep) s]"
    and "s = take m s @ sep @ drop (m + length sep) s"
proof -
  show "SplitN s sep 2 = [take m s, drop (m + length sep) s]"
    using assms by (simp add: SplitN_two)
  from Index_Some_occurs [OF assms] obtain rest where "drop m s = sep @ rest"
    by (auto simp: prefix_def)
  then have "drop (m + length sep) s = rest"
    by (metis add.commute append_eq_conv_conj drop_drop)
  with \<open>drop m s = sep @ rest\<close> show "s = take m s @ sep @ drop (m + length sep) s"
    by (metis append_take_drop_id)
qed

lemma Index_byte_None: "Index s [c] = None \<longleftrightarrow> c \<notin> set s"
  by (induction s) auto

lemma Contains_byte: "Contains s [c] \<longleftrightarrow> c \<in> set s"
  by (simp add: Contains_def Index_byte_None)

lemma Index_first_byte: "c \<notin> set l \<Longrightarrow> Index (l @ c # r) [c] = Some (length l)"
  by (induction l) auto

lemma countFrom_byte: "countFrom 0 s [c] = length (filter (\<lambda>x. x = c) s)"
  by (induction s) auto

lemma Count_byte_pos: "0 < Count s [c] \<longleftrightarrow> c \<in> set s"
  by (simp add: Count_def countFrom_byte filter_empty_conv)

lemma TrimPrefix_byte_mem: "c \<noteq> d \<Longrightarrow> c \<in> set (TrimPrefix s [d]) \<longleftrightarrow> c \<in> set s"
  by (cases s) (auto simp: TrimPrefix_def HasPrefix_def)

text \<open>
  The two index expressions of \<open>parseConsulAddress\<close> are in range: \<open>SplitN\<close> with
  \<open>n = 2\<close> returns at least one piece, and two when the separator occurs.
\<close>

lemma SplitN_two_nonempty: "0 < length (SplitN s sep 2)"
  by (simp add: SplitN_two split: option.split)

lemma SplitN_two_Contains: "Contains s sep \<Longrightarrow> length (SplitN s sep 2) = 2"
  by (auto simp: SplitN_two Contains_def split: option.split)

section \<open>Facts about the URL library\<close>

lemma Cut_byte_absent: "c \<notin> set s \<Longrightarrow> Cut s [c] = (s, '''')"
  by (simp add: Cut_def Index_byte_None [THEN iffD2])

lemma Cut_byte_first: "c \<notin> set l \<Longrightarrow> Cut (l @ c # r) [c] = (l, r)"
  by (simp add: Cut_def Index_first_byte)

lemma fst_Cut_byte: "fst (Cut s [c]) = takeWhile (\<lambda>x. x \<noteq> c) s"
  by (induction s) (auto simp: Cut_def split: option.splits)

lemma upperhex_unhex: "k < 16 \<Longrightarrow> unhex (upperhex ! k) = Some k"
proof -
  assume "k < 16"
  then have "k = 0 \<or> k = 1 \<or> k = 2 \<or> k = 3 \<or> k = 4 \<or> k = 5 \<or> k = 6 \<or> k = 7
             \<or> k = 8 \<or> k = 9 \<or> k = 10 \<or> k = 11 \<or> k = 12 \<or> k = 13 \<or> k = 14 \<or> k = 15"
    by arith
  then show ?thesis
    by (elim disjE) (simp_all add: upperhex_def unhex_def)
qed

lemma upperhex_mem: "k < 16 \<Longrightarrow> upperhex ! k \<in> set upperhex"
  by (rule nth_mem) (simp add: upperhex_def)

lemma of_char_div16: "(of_char (c::char) :: nat) div 16 < 16"
proof -
  have "(of_char c :: nat) < 256" by simp
  then show ?thesis by arith
qed

lemma escapeByte_bytes:
  assumes "x \<in> set (escapeByte c)"
  shows "x = CHR ''%'' \<or> x \<in> set upperhex"
proof -
  have "(of_char c :: nat) mod 16 < 16"
    by simp
  from upperhex_mem [OF of_char_div16 [of c]] upperhex_mem [OF this] assms
  show ?thesis
    by (simp add: escapeByte_def) blast
qed

lemma escapePath_bytes:
  "x \<in> set (escapePath s) \<Longrightarrow> x = CHR ''%'' \<or> x \<in> set upperhex \<or> \<not> shouldEscapePath x"
proof (induction s)
  case Nil
  then show ?case by (simp add: escapePath_def)
next
  case (Cons c s)
  have step: "escapePath (c # s) = (if shouldEscapePath c then escapeByte c else [c]) @ escapePath s"
    by (simp add: escapePath_def)
  from Cons.prems consider "x \<in> set (escapeByte c)" "shouldEscapePath c"
    | "x = c" "\<not> shouldEscapePath c" | "x \<in> set (escapePath s)"
    by (auto simp: step split: if_splits)
  then show ?case
  proof cases
    case 1
    then show ?thesis using escapeByte_bytes by blast
  next
    case 2
    then show ?thesis by blast
  next
    case 3
    then show ?thesis using Cons.IH by blast
  qed
qed

lemma upperhex_plain:
  "CHR ''#'' \<notin> set upperhex" "CHR ''?'' \<notin> set upperhex"
  "x \<in> set upperhex \<Longrightarrow> \<not> ctlByte x"
  by (auto simp: upperhex_def ctlByte_def)

lemma shouldEscapePath_marks:
  "shouldEscapePath (CHR ''#'')" "shouldEscapePath (CHR ''?'')" "shouldEscapePath (CHR ''%'')"
  by (simp_all add: shouldEscapePath_def alnum_def)

lemma escapePath_no_hash: "CHR ''#'' \<notin> set (escapePath s)"
  using escapePath_bytes [of "CHR ''#''" s] by (auto simp: shouldEscapePath_marks upperhex_plain)

lemma escapePath_no_question: "CHR ''?'' \<notin> set (escapePath s)"
  using escapePath_bytes [of "CHR ''?''" s] by (auto simp: shouldEscapePath_marks upperhex_plain)

lemma ctlByte_shouldEscapePath: "ctlByte c \<Longrightarrow> shouldEscapePath c"
  by (auto simp: ctlByte_def shouldEscapePath_def alnum_def)

lemma escapePath_no_ctl: "\<not> list_ex ctlByte (escapePath s)"
proof -
  have "\<not> ctlByte x" if "x \<in> set (escapePath s)" for x
    using escapePath_bytes [OF that] ctlByte_shouldEscapePath [of x] upperhex_plain(3) [of x]
    by (auto simp: ctlByte_def)
  then show ?thesis by (auto simp: list_ex_iff)
qed

lemma unescape_escapeByte:
  "unescape quote (escapeByte c @ t) =
     (case unescape quote t of Inl err \<Rightarrow> Inl err | Inr t' \<Rightarrow> Inr (c # t'))"
proof -
  have whole: "char_of ((of_char c :: nat) div 16 * 16 + of_char c mod 16) = c"
    by (simp only: div_mult_mod_eq char_of_char)
  have hi: "unhex (upperhex ! ((of_char c :: nat) div 16)) = Some (of_char c div 16)"
    by (rule upperhex_unhex [OF of_char_div16])
  have lo: "unhex (upperhex ! ((of_char c :: nat) mod 16)) = Some (of_char c mod 16)"
    by (rule upperhex_unhex) simp
  show ?thesis
    unfolding escapeByte_def
    by (simp add: hi lo whole split: sum.split)
qed

lemma unescape_escapePath: "unescape quote (escapePath s) = Inr s"
proof (induction s)
  case Nil
  then show ?case by (simp add: escapePath_def)
next
  case (Cons c s)
  have step: "escapePath (c # s) = (if shouldEscapePath c then escapeByte c else [c]) @ escapePath s"
    by (simp add: escapePath_def)
  show ?case
  proof (cases "shouldEscapePath c")
    case True
    then show ?thesis
      using Cons by (simp add: step unescape_escapeByte)
  next
    case False
    then have "c \<noteq> CHR ''%''"
      using shouldEscapePath_marks(3) by auto
    with False show ?thesis
      using Cons by (simp add: step)
  qed
qed

text \<open>
  The round trip of a request URL. Printed, the URL is its escaped path and its
  query; \<open>Parse\<close> finds the first \<open>#\<close> and the first \<open>?\<close> where the query has
  them, since the escaped path has neither, and unescapes the path to what it was.
\<close>

lemma escapePath_slash: "escapePath (CHR ''/'' # s) = CHR ''/'' # escapePath s"
  by (simp add: escapePath_def shouldEscapePath_def alnum_def)

lemma escapePath_no_leading_slash:
  "\<not> HasPrefix s ''/'' \<Longrightarrow> \<not> HasPrefix (escapePath s @ t) ''/'' \<or> escapePath s = ''''"
  by (cases s) (auto simp: escapePath_def escapeByte_def HasPrefix_def)

lemma request_url_cuts:
  assumes "Scheme origUrl = ''''" and "Host origUrl = ''''" and "Fragment origUrl = ''''"
    and slash: "HasPrefix (Path origUrl) ''/''" and single: "\<not> HasPrefix (Path origUrl) ''//''"
    and e_def: "e = escapePath (Path origUrl)"
    and q1_def: "q1 = takeWhile (\<lambda>c. c \<noteq> CHR ''#'') (RawQuery origUrl)"
    and u_def: "u = e @ (if RawQuery origUrl = '''' then '''' else ''?'' @ q1)"
  shows "\<exists>f. Cut (netUrlString otherString origUrl) ''#'' = (u, f)
             \<and> (CHR ''#'' \<in> set (RawQuery origUrl) \<or> f = '''')"
    and "HasPrefix u ''/''" and "\<not> HasPrefix u ''//''" and "Cut u ''?'' = (e, q1)"
proof -
  define q where "q = RawQuery origUrl"
  have q1: "q1 = takeWhile (\<lambda>c. c \<noteq> CHR ''#'') q" and u: "u = e @ (if q = '''' then '''' else ''?'' @ q1)"
    by (simp_all add: q_def q1_def u_def)
  have printed: "netUrlString otherString origUrl = e @ (if q = '''' then '''' else ''?'' @ q)"
    using assms(1-4) by (simp add: netUrlString_def e_def q_def)
  have e_hash: "CHR ''#'' \<notin> set e" and e_quest: "CHR ''?'' \<notin> set e"
    by (simp_all add: e_def escapePath_no_hash escapePath_no_question)
  have q1_hash: "CHR ''#'' \<notin> set q1"
    by (auto simp: q1 dest: set_takeWhileD)
  have u_hash: "CHR ''#'' \<notin> set u"
    using e_hash q1_hash by (simp add: u)
  have "\<exists>f. Cut (netUrlString otherString origUrl) ''#'' = (u, f) \<and> (CHR ''#'' \<in> set q \<or> f = '''')"
  proof (cases "CHR ''#'' \<in> set q")
    case False
    then have "q1 = q"
      by (auto simp: q1 takeWhile_eq_all_conv)
    then have "netUrlString otherString origUrl = u"
      by (simp add: printed u)
    with u_hash have "Cut (netUrlString otherString origUrl) ''#'' = (u, '''')"
      by (simp add: Cut_byte_absent)
    then show ?thesis
      by blast
  next
    case True
    then obtain l r where q: "q = l @ CHR ''#'' # r" and l: "CHR ''#'' \<notin> set l"
      by (meson split_list_first)
    have "takeWhile (\<lambda>c. c \<noteq> CHR ''#'') l = l"
      using l by (auto simp: takeWhile_eq_all_conv)
    then have "q1 = l"
      by (simp add: q1 q takeWhile_tail)
    then have "netUrlString otherString origUrl = u @ CHR ''#'' # r"
      by (simp add: printed u q)
    with u_hash have "Cut (netUrlString otherString origUrl) ''#'' = (u, r)"
      by (simp add: Cut_byte_first)
    with True show ?thesis
      by blast
  qed
  then show "\<exists>f. Cut (netUrlString otherString origUrl) ''#'' = (u, f)
             \<and> (CHR ''#'' \<in> set (RawQuery origUrl) \<or> f = '''')"
    by (simp add: q_def)
  from slash single obtain p where path: "Path origUrl = CHR ''/'' # p" and p: "\<not> HasPrefix p ''/''"
    by (cases "Path origUrl") (auto simp: HasPrefix_def)
  have e: "e = CHR ''/'' # escapePath p"
    by (simp add: e_def path escapePath_slash)
  show "HasPrefix u ''/''"
    by (simp add: u e HasPrefix_def)
  show "\<not> HasPrefix u ''//''"
    using escapePath_no_leading_slash [OF p, of "if q = '''' then '''' else ''?'' @ q1"]
    by (auto simp: u e HasPrefix_def)
  show "Cut u ''?'' = (e, q1)"
  proof (cases "q = ''''")
    case True
    then have "q1 = ''''"
      by (simp add: q1)
    with True e_quest show ?thesis
      by (simp add: u Cut_byte_absent)
  next
    case False
    with e_quest show ?thesis
      by (simp add: u Cut_byte_first)
  qed
qed


lemma netUrlParse_request_url_ok:
  assumes "Scheme origUrl = ''''" and "Host origUrl = ''''" and "Fragment origUrl = ''''"
    and "HasPrefix (Path origUrl) ''/''" and "\<not> HasPrefix (Path origUrl) ''//''"
    and noctl: "\<not> list_ex ctlByte (RawQuery origUrl)"
    and nohash: "CHR ''#'' \<notin> set (RawQuery origUrl)"
  shows "netUrlParse quote otherParse (netUrlString otherString origUrl) = Inr origUrl"
proof -
  have same: "takeWhile (\<lambda>c. c \<noteq> CHR ''#'') (RawQuery origUrl) = RawQuery origUrl"
    using nohash by (auto simp: takeWhile_eq_all_conv)
  note cuts = request_url_cuts [OF assms(1-5) refl refl refl, unfolded same]
  from cuts(1) nohash have cut:
    "Cut (netUrlString otherString origUrl) ''#''
       = (escapePath (Path origUrl)
            @ (if RawQuery origUrl = '''' then '''' else ''?'' @ RawQuery origUrl), '''')"
    by auto
  have clean: "\<not> list_ex ctlByte (escapePath (Path origUrl)
            @ (if RawQuery origUrl = '''' then '''' else ''?'' @ RawQuery origUrl))"
    using noctl escapePath_no_ctl [of "Path origUrl"]
    by (auto simp: list_ex_iff ctlByte_def)
  show ?thesis
    using cuts(2-4) clean assms(1-3)
    by (simp add: netUrlParse_def cut unescape_escapePath)
qed

section \<open>Hostname parsing: the two-part segment\<close>

lemma parseConsulAddress_two_parts:
  assumes seg: "SplitN hostname ''.service.'' 2 ! 0 = l @ ''.'' @ r"
    and l: "CHR ''.'' \<notin> set l"
  shows "parseConsulAddress hostname =
           (if CHR ''.'' \<in> set r then ('''', '''')
            else (TrimPrefix l ''_'', TrimPrefix r ''_''))"
proof -
  have idx: "Index (l @ ''.'' @ r) ''.'' = Some (length l)"
    using Index_first_byte [OF l, of r] by simp
  have cont: "Contains (l @ ''.'' @ r) ''.''"
    by (simp add: Contains_byte)
  have parts: "SplitN (l @ ''.'' @ r) ''.'' 2 = [l, r]"
    using idx by (simp add: SplitN_two)
  have cnt: "0 < Count (TrimPrefix r ''_'') ''.'' \<longleftrightarrow> CHR ''.'' \<in> set r"
    by (simp add: Count_byte_pos TrimPrefix_byte_mem)
  show ?thesis
    unfolding parseConsulAddress_def Let_def seg
    using cont parts cnt by simp
qed

text \<open>
  C1. For a hostname whose segment left of the first \<open>.service.\<close> has exactly one
  dot, as in \<open>port.svc.service.dc.consul\<close>, the spec puts the right part into the
  service name and the left part into the port type. The code does the reverse: the
  value it returns as \<open>svcName\<close> is the left part and the value it returns as
  \<open>svcType\<close> is the right part, each without a leading underscore.
\<close>

theorem parseConsulAddress_one_dot:
  assumes "SplitN hostname ''.service.'' 2 ! 0 = l @ ''.'' @ r"
    and "CHR ''.'' \<notin> set l" and "CHR ''.'' \<notin> set r"
  shows "parseConsulAddress hostname = (TrimPrefix l ''_'', TrimPrefix r ''_'')"
  using parseConsulAddress_two_parts [OF assms(1,2)] assms(3) by simp

theorem parseConsulAddress_one_dot_witness:
  "SplitN ''port.svc.service.dc.consul'' ''.service.'' 2 ! 0 = ''port'' @ ''.'' @ ''svc''
   \<and> CHR ''.'' \<notin> set ''port'' \<and> CHR ''.'' \<notin> set ''svc''
   \<and> parseConsulAddress ''port.svc.service.dc.consul'' = (''port'', ''svc'')
   \<and> parseConsulAddress ''port.svc.service.dc.consul'' \<noteq> (''svc'', ''port'')"
proof -
  have seg: "SplitN ''port.svc.service.dc.consul'' ''.service.'' 2 ! 0 = ''port'' @ ''.'' @ ''svc''"
    by (simp add: SplitN_two)
  have l: "CHR ''.'' \<notin> set ''port''" and r: "CHR ''.'' \<notin> set ''svc''"
    by simp_all
  have "parseConsulAddress ''port.svc.service.dc.consul''
          = (TrimPrefix ''port'' ''_'', TrimPrefix ''svc'' ''_'')"
    by (rule parseConsulAddress_one_dot [OF seg l r])
  then have "parseConsulAddress ''port.svc.service.dc.consul'' = (''port'', ''svc'')"
    by (simp add: TrimPrefix_def HasPrefix_def)
  with seg l r show ?thesis by simp
qed

text \<open>
  C8. When the segment left of the first \<open>.service.\<close> has a dot, the part after its
  first dot is the port-type field, \<open>svcType\<close> in the code. If that part has a dot
  itself, as in \<open>10.0.0.1.service.consul\<close>, both results are the empty string.
\<close>

theorem parseConsulAddress_dotted_port_type:
  assumes "SplitN hostname ''.service.'' 2 ! 0 = l @ ''.'' @ r"
    and "CHR ''.'' \<notin> set l" and "CHR ''.'' \<in> set r"
  shows "parseConsulAddress hostname = ('''', '''')"
  using parseConsulAddress_two_parts [OF assms(1,2)] assms(3) by simp

theorem parseConsulAddress_dotted_port_type_witness:
  "SplitN ''10.0.0.1.service.consul'' ''.service.'' 2 ! 0 = ''10'' @ ''.'' @ ''0.0.1''
   \<and> CHR ''.'' \<notin> set ''10'' \<and> CHR ''.'' \<in> set ''0.0.1''
   \<and> parseConsulAddress ''10.0.0.1.service.consul'' = ('''', '''')"
proof -
  have seg: "SplitN ''10.0.0.1.service.consul'' ''.service.'' 2 ! 0 = ''10'' @ ''.'' @ ''0.0.1''"
    by (simp add: SplitN_two)
  have l: "CHR ''.'' \<notin> set ''10''" and r: "CHR ''.'' \<in> set ''0.0.1''"
    by simp_all
  from parseConsulAddress_dotted_port_type [OF seg l r] seg l r show ?thesis by simp
qed

section \<open>Scheme guessing\<close>

text \<open>
  C9. \<open>guessScheme\<close> returns the scheme named by the first tag, in the order of the
  tag list, whose lower-case form is \<open>http\<close> or \<open>https\<close>, whatever follows it, and
  \<open>http\<close> when no tag has such a form.
\<close>

theorem guessScheme_first_match:
  assumes "\<forall>t \<in> set pre. ToLower t \<noteq> ''http'' \<and> ToLower t \<noteq> ''https''"
  shows "(Tags r = pre @ tag # post \<and> (ToLower tag = ''http'' \<or> ToLower tag = ''https'')
            \<longrightarrow> guessScheme r = ToLower tag)
         \<and> (Tags r = pre \<longrightarrow> guessScheme r = ''http'')"
proof -
  have skip: "guessSchemeTags (pre @ rest) = guessSchemeTags rest" for rest
    using assms by (induction pre) auto
  have none: "guessSchemeTags pre = ''http''"
    using skip [of "[]"] by simp
  show ?thesis
    using skip [of "tag # post"] none by (auto simp: guessScheme_def)
qed

theorem guessScheme_first_match_witness:
  "ToLower ''v2'' \<noteq> ''http'' \<and> ToLower ''v2'' \<noteq> ''https''
   \<and> guessScheme \<lparr>Hostname = ''n1'', Tags = [''v2'', ''HTTPS'', ''http''], Port = 1\<rparr> = ''https''
   \<and> guessScheme \<lparr>Hostname = ''n1'', Tags = [''v2'', ''Http'', ''https''], Port = 1\<rparr> = ''http''
   \<and> guessScheme \<lparr>Hostname = ''n1'', Tags = [''v2''], Port = 1\<rparr> = ''http''"
proof -
  have pre: "\<forall>t \<in> set [''v2'']. ToLower t \<noteq> ''http'' \<and> ToLower t \<noteq> ''https''"
    by (simp add: ToLower_def)
  have up: "ToLower ''HTTPS'' = ''https''" and mixed: "ToLower ''Http'' = ''http''"
    by code_simp+
  show ?thesis
    using pre up mixed
      guessScheme_first_match [OF pre,
        of "\<lparr>Hostname = ''n1'', Tags = [''v2'', ''HTTPS'', ''http''], Port = 1\<rparr>"
           "''HTTPS''" "[''http'']"]
      guessScheme_first_match [OF pre,
        of "\<lparr>Hostname = ''n1'', Tags = [''v2'', ''Http'', ''https''], Port = 1\<rparr>"
           "''Http''" "[''https'']"]
      guessScheme_first_match [OF pre,
        of "\<lparr>Hostname = ''n1'', Tags = [''v2''], Port = 1\<rparr>"]
    by simp
qed

section \<open>The order of two options\<close>

text \<open>
  C3. On the two options \<open>b\<close> port 2, \<open>a\<close> port 1, in this order, the sort swaps the
  pair. It compares the second option with the first: \<open>a\<close> is less than \<open>b\<close> and 1 is
  less than 2, so the comparison holds and the second option moves to the front. The
  result is \<open>a\<close> port 1, \<open>b\<close> port 2, whatever the tags.
\<close>

theorem sortOptions_pair_swapped:
  "sortOptions lib [\<lparr>Hostname = ''b'', Tags = t1, Port = 2\<rparr>,
                    \<lparr>Hostname = ''a'', Tags = t2, Port = 1\<rparr>]
     = [\<lparr>Hostname = ''a'', Tags = t2, Port = 1\<rparr>, \<lparr>Hostname = ''b'', Tags = t1, Port = 2\<rparr>]"
  by (simp add: sortOptions_def sortSlice_def insertionSort_def optionLess_def)

theorem sortOptions_pair_not_kept:
  "sortOptions testLib [\<lparr>Hostname = ''b'', Tags = [], Port = 2\<rparr>,
                        \<lparr>Hostname = ''a'', Tags = [], Port = 1\<rparr>]
     \<noteq> [\<lparr>Hostname = ''b'', Tags = [], Port = 2\<rparr>, \<lparr>Hostname = ''a'', Tags = [], Port = 1\<rparr>]"
  by (simp add: sortOptions_def sortSlice_def insertionSort_def optionLess_def)

section \<open>Building URLs\<close>

lemma buildUrlWithPort_Inl:
  "urlParse lib (urlString lib origUrl) = Inl err
     \<Longrightarrow> buildUrlWithPort lib hostname origUrl scheme port = Inl err"
  by (simp add: buildUrlWithPort_def)

lemma buildUrlWithPort_Inr:
  "urlParse lib (urlString lib origUrl) = Inr u
     \<Longrightarrow> buildUrlWithPort lib hostname origUrl scheme port
           = Inr (u\<lparr>Scheme := scheme, Host := hostname @ '':'' @ decimal (unat port)\<rparr>)"
  by (simp add: buildUrlWithPort_def)


text \<open>The library of the concrete runs on the two request URLs they use.\<close>

lemma parse_foobar:
  "urlParse testLib (urlString testLib (pathUrl ''//foo:bar/'' ''''))
     = Inl ''parse \"//foo:bar/\": invalid port \":bar\" after host''"
  by (simp add: testLib_def netUrl_def netUrlString_def netUrlParse_def Cut_def
      escapePath_def shouldEscapePath_def alnum_def HasPrefix_def tableParse_def pathUrl_def)

lemma parse_x_q:
  "urlParse testLib (urlString testLib (pathUrl ''/x'' ''q=1'')) = Inr (pathUrl ''/x'' ''q=1'')"
proof -
  have "\<not> list_ex ctlByte ''q=1''" and "CHR ''#'' \<notin> set ''q=1''"
    by (simp_all add: ctlByte_def)
  then show ?thesis
    by (simp add: testLib_def netUrl_def netUrlParse_request_url_ok pathUrl_def HasPrefix_def)
qed




section \<open>The handler: which part of it runs\<close>

lemma prefix_metrics_not_health: "HasPrefix p ''metrics'' \<Longrightarrow> \<not> HasPrefix p ''health''"
  by (cases p) (auto simp: HasPrefix_def)

lemma ServeHTTP_no_probe:
  assumes "\<not> HasPrefix (TrimPrefix (Path (URL req)) ''/'') ''health''"
    and "\<not> HasPrefix (TrimPrefix (Path (URL req)) ''/'') ''metrics''"
  shows "ServeHTTP lib fl s req = serveHostname lib fl s req"
  using assms by (simp add: ServeHTTP_def)

lemma serveHostname_no_route:
  assumes "customRoutes s (getHostname req) = None"
    and "HasSuffix (getHostname req) (''.'' @ hostnameSuffix fl)
           \<longrightarrow> customRoutes s (TrimSuffix (getHostname req) (''.'' @ hostnameSuffix fl)) = None"
  shows "serveHostname lib fl s req =
           (if redirectToNomadUI fl \<and>
               (HasSuffix (getHostname req) (hostnameSuffix fl)
                \<or> getHostname req = nomadUIHostname fl)
            then serveNomadUI lib req (getHostname req)
            else serveService lib fl s req (getHostname req))"
  using assms by (simp add: serveHostname_def Let_def)

text \<open>
  C10. A request whose path, without one leading slash, begins with \<open>health\<close> gets
  status 200 with the body \<open>ok\<close>, and one whose path begins with \<open>metrics\<close> gets
  status 200 with no body. In both cases these are all the effects of the handler,
  whatever the host, the flags, the custom routes and the catalog: no redirect, no
  template and no catalog query.
\<close>

theorem probes_bypass_resolution:
  "(HasPrefix (TrimPrefix (Path (URL req)) ''/'') ''health''
      \<longrightarrow> ServeHTTP lib fl s req = Returned [WriteHeader 200, Write ''ok''])
   \<and> (HasPrefix (TrimPrefix (Path (URL req)) ''/'') ''metrics''
      \<longrightarrow> ServeHTTP lib fl s req = Returned [WriteHeader 200])"
  using prefix_metrics_not_health [of "TrimPrefix (Path (URL req)) ''/''"]
  by (auto simp: ServeHTTP_def)

theorem probes_bypass_resolution_witness:
  "HasPrefix (TrimPrefix (Path (URL \<lparr>ReqHost = ''docs'', URL = pathUrl ''/healthz'' ''''\<rparr>)) ''/'')
     ''health''
   \<and> customRoutes testServer ''docs'' = Some ''http://wiki.example/''
   \<and> ServeHTTP testLib (testFlags True) testServer
        \<lparr>ReqHost = ''docs'', URL = pathUrl ''/healthz'' ''''\<rparr>
      = Returned [WriteHeader 200, Write ''ok'']
   \<and> HasPrefix (TrimPrefix (Path (URL \<lparr>ReqHost = ''docs'', URL = pathUrl ''/metrics'' ''''\<rparr>)) ''/'')
       ''metrics''
   \<and> ServeHTTP testLib (testFlags True) testServer
        \<lparr>ReqHost = ''docs'', URL = pathUrl ''/metrics'' ''''\<rparr>
      = Returned [WriteHeader 200]"
proof -
  have h: "HasPrefix (TrimPrefix (Path (URL \<lparr>ReqHost = ''docs'', URL = pathUrl ''/healthz'' ''''\<rparr>)) ''/'')
             ''health''"
    by (simp add: HasPrefix_def TrimPrefix_def pathUrl_def)
  have m: "HasPrefix (TrimPrefix (Path (URL \<lparr>ReqHost = ''docs'', URL = pathUrl ''/metrics'' ''''\<rparr>)) ''/'')
             ''metrics''"
    by (simp add: HasPrefix_def TrimPrefix_def pathUrl_def)
  have route: "customRoutes testServer ''docs'' = Some ''http://wiki.example/''"
    by (simp add: testServer_def)
  show ?thesis
    using h m route
      probes_bypass_resolution [of "\<lparr>ReqHost = ''docs'', URL = pathUrl ''/healthz'' ''''\<rparr>"
        testLib "testFlags True" testServer]
      probes_bypass_resolution [of "\<lparr>ReqHost = ''docs'', URL = pathUrl ''/metrics'' ''''\<rparr>"
        testLib "testFlags True" testServer]
    by simp
qed

section \<open>Custom routes\<close>

text \<open>
  C5. Resolution is the handler from line 133 on, \<open>serveHostname\<close>. When the request
  hostname is a key of the custom routes it redirects to the URL of the table with
  status 307 and does nothing else, for every request URL, whatever the catalog,
  the flags and the form of the hostname: the table is looked at first, and a hit
  ends the resolution.
\<close>

theorem custom_route_redirects:
  assumes "customRoutes s (getHostname req) = Some target"
  shows "serveHostname lib fl s req = Returned [Redirect target 307]"
  using assms by (simp add: serveHostname_def Let_def)

theorem custom_route_redirects_witness:
  "customRoutes testServer (getHostname \<lparr>ReqHost = ''docs:8080'', URL = pathUrl ''/x'' ''q=1''\<rparr>)
     = Some ''http://wiki.example/''
   \<and> serveHostname testLib (testFlags True) testServer
        \<lparr>ReqHost = ''docs:8080'', URL = pathUrl ''/x'' ''q=1''\<rparr>
      = Returned [Redirect ''http://wiki.example/'' 307]"
proof -
  have route: "customRoutes testServer
                 (getHostname \<lparr>ReqHost = ''docs:8080'', URL = pathUrl ''/x'' ''q=1''\<rparr>)
               = Some ''http://wiki.example/''"
    by (simp add: testServer_def getHostname_def SplitN_two)
  from custom_route_redirects [OF route, of testLib "testFlags True"] route
  show ?thesis by simp
qed

text \<open>
  The handler hands a request to the resolution when its path is neither of the two
  probes, so such a request to a hostname of the table gets the redirect.
\<close>

lemma ServeHTTP_custom_route:
  assumes "customRoutes s (getHostname req) = Some target"
    and "\<not> HasPrefix (TrimPrefix (Path (URL req)) ''/'') ''health''"
    and "\<not> HasPrefix (TrimPrefix (Path (URL req)) ''/'') ''metrics''"
  shows "ServeHTTP lib fl s req = Returned [Redirect target 307]"
  using assms by (simp add: ServeHTTP_def serveHostname_def Let_def)

section \<open>The redirect to the Nomad UI\<close>

text \<open>
  C2. With the redirect to the Nomad UI switched on and a hostname that ends with
  the suffix or is the Nomad UI hostname, a request URL that fails to parse again
  makes the handler panic: nothing is written to the response, and the block that
  reports the error is not reached. The spec has the error reported as a value.
\<close>

theorem nomadUI_build_failure_panics:
  assumes "\<not> HasPrefix (TrimPrefix (Path (URL req)) ''/'') ''health''"
    and "\<not> HasPrefix (TrimPrefix (Path (URL req)) ''/'') ''metrics''"
    and "customRoutes s (getHostname req) = None"
    and "HasSuffix (getHostname req) (''.'' @ hostnameSuffix fl)
           \<longrightarrow> customRoutes s (TrimSuffix (getHostname req) (''.'' @ hostnameSuffix fl)) = None"
    and "redirectToNomadUI fl"
    and "HasSuffix (getHostname req) (hostnameSuffix fl) \<or> getHostname req = nomadUIHostname fl"
    and "urlParse lib (urlString lib (URL req)) = Inl err"
  shows "ServeHTTP lib fl s req = Panicked []"
proof -
  have "ServeHTTP lib fl s req = serveNomadUI lib req (getHostname req)"
    using assms(5,6)
    by (simp add: ServeHTTP_no_probe [OF assms(1,2)] serveHostname_no_route [OF assms(3,4)])
  also have "\<dots> = Panicked []"
    by (simp add: serveNomadUI_def buildUrlWithPort_Inl [OF assms(7)])
  finally show ?thesis .
qed

theorem nomadUI_build_failure_panics_witness:
  "\<not> HasPrefix (TrimPrefix (Path (URL \<lparr>ReqHost = ''n1.node.example'',
          URL = pathUrl ''//foo:bar/'' ''''\<rparr>)) ''/'') ''health''
   \<and> \<not> HasPrefix (TrimPrefix (Path (URL \<lparr>ReqHost = ''n1.node.example'',
          URL = pathUrl ''//foo:bar/'' ''''\<rparr>)) ''/'') ''metrics''
   \<and> customRoutes testServer (getHostname \<lparr>ReqHost = ''n1.node.example'',
          URL = pathUrl ''//foo:bar/'' ''''\<rparr>) = None
   \<and> customRoutes testServer ''n1'' = None
   \<and> redirectToNomadUI (testFlags True)
   \<and> HasSuffix (getHostname \<lparr>ReqHost = ''n1.node.example'', URL = pathUrl ''//foo:bar/'' ''''\<rparr>)
        (hostnameSuffix (testFlags True))
   \<and> urlParse testLib (urlString testLib (URL \<lparr>ReqHost = ''n1.node.example'',
          URL = pathUrl ''//foo:bar/'' ''''\<rparr>))
      = Inl ''parse \"//foo:bar/\": invalid port \":bar\" after host''
   \<and> ServeHTTP testLib (testFlags True) testServer
        \<lparr>ReqHost = ''n1.node.example'', URL = pathUrl ''//foo:bar/'' ''''\<rparr>
      = Panicked []"
proof -
  let ?req = "\<lparr>ReqHost = ''n1.node.example'', URL = pathUrl ''//foo:bar/'' ''''\<rparr>"
  have host: "getHostname ?req = ''n1.node.example''"
    by (simp add: getHostname_def SplitN_two)
  have h: "\<not> HasPrefix (TrimPrefix (Path (URL ?req)) ''/'') ''health''"
    and m: "\<not> HasPrefix (TrimPrefix (Path (URL ?req)) ''/'') ''metrics''"
    by (simp_all add: HasPrefix_def TrimPrefix_def pathUrl_def)
  have r1: "customRoutes testServer (getHostname ?req) = None"
    by (simp add: host testServer_def)
  have cut: "TrimSuffix (getHostname ?req) (''.'' @ hostnameSuffix (testFlags True)) = ''n1''"
    by (simp add: host testFlags_def TrimSuffix_def HasSuffix_def suffix_to_prefix)
  have r2': "customRoutes testServer ''n1'' = None"
    by (simp add: testServer_def)
  have r2: "HasSuffix (getHostname ?req) (''.'' @ hostnameSuffix (testFlags True))
              \<longrightarrow> customRoutes testServer
                    (TrimSuffix (getHostname ?req) (''.'' @ hostnameSuffix (testFlags True))) = None"
    by (simp only: cut r2' simp_thms)
  have ui: "redirectToNomadUI (testFlags True)"
    by (simp add: testFlags_def)
  have suf: "HasSuffix (getHostname ?req) (hostnameSuffix (testFlags True))"
    by (simp add: host testFlags_def HasSuffix_def suffix_to_prefix)
  have suf': "HasSuffix (getHostname ?req) (hostnameSuffix (testFlags True))
                \<or> getHostname ?req = nomadUIHostname (testFlags True)"
    using suf by simp
  have bad: "urlParse testLib (urlString testLib (URL ?req))
               = Inl ''parse \"//foo:bar/\": invalid port \":bar\" after host''"
    using parse_foobar by simp
  from nomadUI_build_failure_panics [OF h m r1 r2 ui suf' bad] h m r1 r2' ui suf bad
  show ?thesis by simp
qed

section \<open>The catalog lookup on the concrete inputs\<close>

lemma getHostname_web: "getHostname \<lparr>ReqHost = ''web.service.consul:80'', URL = u\<rparr> = ''web.service.consul''"
  by (simp add: getHostname_def SplitN_two)

lemma getHostname_solo: "getHostname \<lparr>ReqHost = ''solo.service.consul'', URL = u\<rparr> = ''solo.service.consul''"
  by (simp add: getHostname_def SplitN_two)

lemma parse_web: "parseConsulAddress ''web.service.consul'' = (''web'', '''')"
  by (simp add: parseConsulAddress_def SplitN_two Contains_def Count_def)

lemma parse_solo: "parseConsulAddress ''solo.service.consul'' = (''solo'', '''')"
  by (simp add: parseConsulAddress_def SplitN_two Contains_def Count_def)

lemma query_web:
  "queryConsulForHostname testLib testServer ''web.service.consul''
     = ([CatalogQuery ''web'' ''''],
        Inr [\<lparr>Hostname = ''n1'', Tags = [''v2'', ''HTTPS''], Port = 8443\<rparr>,
             \<lparr>Hostname = ''n2'', Tags = [], Port = 80\<rparr>])"
  by (simp add: queryConsulForHostname_def parse_web testServer_def testCatalog_def
      sortOptions_def sortSlice_def insertionSort_def optionLess_def toOption_def)

lemma query_solo:
  "queryConsulForHostname testLib testServer ''solo.service.consul''
     = ([CatalogQuery ''solo'' ''''], Inr [\<lparr>Hostname = ''n3'', Tags = [''http''], Port = 9000\<rparr>])"
  by (simp add: queryConsulForHostname_def parse_solo testServer_def testCatalog_def
      sortOptions_def sortSlice_def insertionSort_def optionLess_def toOption_def)

lemma no_probe_x:
  "\<not> HasPrefix (TrimPrefix (Path (URL \<lparr>ReqHost = h, URL = pathUrl ''/x'' q\<rparr>)) ''/'') ''health''"
  "\<not> HasPrefix (TrimPrefix (Path (URL \<lparr>ReqHost = h, URL = pathUrl ''/x'' q\<rparr>)) ''/'') ''metrics''"
  by (simp_all add: HasPrefix_def TrimPrefix_def pathUrl_def)

lemma no_probe_foobar:
  "\<not> HasPrefix (TrimPrefix (Path (URL \<lparr>ReqHost = h, URL = pathUrl ''//foo:bar/'' q\<rparr>)) ''/'') ''health''"
  "\<not> HasPrefix (TrimPrefix (Path (URL \<lparr>ReqHost = h, URL = pathUrl ''//foo:bar/'' q\<rparr>)) ''/'') ''metrics''"
  by (simp_all add: HasPrefix_def TrimPrefix_def pathUrl_def)

lemma no_route_web:
  "customRoutes testServer ''web.service.consul'' = None"
  "\<not> HasSuffix ''web.service.consul'' (''.'' @ hostnameSuffix (testFlags ui))"
  by (simp_all add: testServer_def testFlags_def HasSuffix_def suffix_to_prefix)

lemma no_route_solo:
  "customRoutes testServer ''solo.service.consul'' = None"
  "\<not> HasSuffix ''solo.service.consul'' (''.'' @ hostnameSuffix (testFlags ui))"
  by (simp_all add: testServer_def testFlags_def HasSuffix_def suffix_to_prefix)

lemma ToLower_tags:
  "ToLower ''v2'' = ''v2''" "ToLower ''HTTPS'' = ''https''" "ToLower ''http'' = ''http''"
  by code_simp+

lemma decimal_ports: "decimal 8443 = ''8443''" "decimal 80 = ''80''" "decimal 9000 = ''9000''"
  by (simp_all add: decimal.simps digitChar_def)

section \<open>Catalog results: a URL that cannot be built\<close>

lemma serveService_reached:
  assumes "\<not> HasPrefix (TrimPrefix (Path (URL req)) ''/'') ''health''"
    and "\<not> HasPrefix (TrimPrefix (Path (URL req)) ''/'') ''metrics''"
    and "customRoutes s (getHostname req) = None"
    and "HasSuffix (getHostname req) (''.'' @ hostnameSuffix fl)
           \<longrightarrow> customRoutes s (TrimSuffix (getHostname req) (''.'' @ hostnameSuffix fl)) = None"
    and "\<not> (redirectToNomadUI fl \<and>
             (HasSuffix (getHostname req) (hostnameSuffix fl)
              \<or> getHostname req = nomadUIHostname fl))"
  shows "ServeHTTP lib fl s req = serveService lib fl s req (getHostname req)"
  using assms(5)
  by (auto simp: ServeHTTP_no_probe [OF assms(1,2)] serveHostname_no_route [OF assms(3,4)])

lemma buildRows_Inl:
  "urlParse lib (urlString lib origUrl) = Inl err \<Longrightarrow> result \<noteq> []
     \<Longrightarrow> buildRows lib fl origUrl result = Inl err"
  by (cases result) (simp_all add: BuildURL_def buildUrlWithPort_Inl)

lemma buildRows_Inr:
  "urlParse lib (urlString lib origUrl) = Inr u
     \<Longrightarrow> buildRows lib fl origUrl result
           = Inr (map (\<lambda>opt. optionRow fl opt
                        (u\<lparr>Scheme := guessScheme opt,
                           Host := addHostnameSuffix fl (Hostname opt) @ '':''
                                   @ decimal (unat (Port opt))\<rparr>)) result)"
  by (induction result) (simp_all add: BuildURL_def buildUrlWithPort_Inr)

lemma addHostnameSuffix_appends:
  "hostnameSuffix fl \<noteq> ''''
     \<Longrightarrow> addHostnameSuffix fl hostname = hostname @ ''.'' @ TrimPrefix (hostnameSuffix fl) ''.''"
  by (simp add: addHostnameSuffix_def)

text \<open>
  The sibling of the case below: with exactly one option, a URL that fails to parse
  again is reported with status 500 and the URL-building error template.
\<close>

lemma single_result_build_failure_reported:
  assumes "fst (parseConsulAddress hostname) \<noteq> ''''"
    and "queryConsulForHostname lib s hostname = (queried, Inr [opt])"
    and "urlParse lib (urlString lib (URL req)) = Inl err"
  shows "serveService lib fl s req hostname =
           Returned (queried @ [SetHeader ''Content-Type'' ''text/html'', WriteHeader 500,
                                Execute (UrlBuildingError hostname err)])"
proof -
  obtain svcName svcType where p: "parseConsulAddress hostname = (svcName, svcType)"
    by force
  with assms(1) have "svcName \<noteq> ''''"
    by simp
  then show ?thesis
    by (simp add: serveService_def p assms(2) BuildURL_def buildUrlWithPort_Inl [OF assms(3)])
qed

text \<open>
  C4. With two or more options from the catalog, a request URL that fails to parse
  again ends the handler at the first option: after the catalog query the only
  effect is the content-type header. No status, no listing and no error template
  is written, where the spec has a URL-building error.
\<close>

theorem multiple_results_build_failure_silent:
  assumes "\<not> HasPrefix (TrimPrefix (Path (URL req)) ''/'') ''health''"
    and "\<not> HasPrefix (TrimPrefix (Path (URL req)) ''/'') ''metrics''"
    and "customRoutes s (getHostname req) = None"
    and "HasSuffix (getHostname req) (''.'' @ hostnameSuffix fl)
           \<longrightarrow> customRoutes s (TrimSuffix (getHostname req) (''.'' @ hostnameSuffix fl)) = None"
    and "\<not> (redirectToNomadUI fl \<and>
             (HasSuffix (getHostname req) (hostnameSuffix fl)
              \<or> getHostname req = nomadUIHostname fl))"
    and "fst (parseConsulAddress (getHostname req)) \<noteq> ''''"
    and "queryConsulForHostname lib s (getHostname req) = (queried, Inr result)"
    and "2 \<le> length result"
    and "urlParse lib (urlString lib (URL req)) = Inl err"
  shows "ServeHTTP lib fl s req = Returned (queried @ [SetHeader ''Content-Type'' ''text/html''])"
proof -
  have ne: "result \<noteq> []" and len: "length result \<noteq> 1" "length result \<noteq> 0"
    using assms(8) by auto
  obtain svcName svcType where p: "parseConsulAddress (getHostname req) = (svcName, svcType)"
    by force
  with assms(6) have "svcName \<noteq> ''''"
    by simp
  then have "serveService lib fl s req (getHostname req)
          = Returned (queried @ [SetHeader ''Content-Type'' ''text/html''])"
    using len
    by (simp add: serveService_def p assms(7) buildRows_Inl [OF assms(9) ne] Let_def)
  then show ?thesis
    by (simp add: serveService_reached [OF assms(1-5)])
qed

theorem multiple_results_build_failure_silent_witness:
  "\<not> HasPrefix (TrimPrefix (Path (URL \<lparr>ReqHost = ''web.service.consul:80'',
          URL = pathUrl ''//foo:bar/'' ''''\<rparr>)) ''/'') ''health''
   \<and> \<not> HasPrefix (TrimPrefix (Path (URL \<lparr>ReqHost = ''web.service.consul:80'',
          URL = pathUrl ''//foo:bar/'' ''''\<rparr>)) ''/'') ''metrics''
   \<and> customRoutes testServer (getHostname \<lparr>ReqHost = ''web.service.consul:80'',
          URL = pathUrl ''//foo:bar/'' ''''\<rparr>) = None
   \<and> \<not> HasSuffix (getHostname \<lparr>ReqHost = ''web.service.consul:80'',
          URL = pathUrl ''//foo:bar/'' ''''\<rparr>) (''.'' @ hostnameSuffix (testFlags False))
   \<and> \<not> redirectToNomadUI (testFlags False)
   \<and> fst (parseConsulAddress (getHostname \<lparr>ReqHost = ''web.service.consul:80'',
          URL = pathUrl ''//foo:bar/'' ''''\<rparr>)) = ''web''
   \<and> queryConsulForHostname testLib testServer (getHostname \<lparr>ReqHost = ''web.service.consul:80'',
          URL = pathUrl ''//foo:bar/'' ''''\<rparr>)
      = ([CatalogQuery ''web'' ''''],
         Inr [\<lparr>Hostname = ''n1'', Tags = [''v2'', ''HTTPS''], Port = 8443\<rparr>,
              \<lparr>Hostname = ''n2'', Tags = [], Port = 80\<rparr>])
   \<and> urlParse testLib (urlString testLib (URL \<lparr>ReqHost = ''web.service.consul:80'',
          URL = pathUrl ''//foo:bar/'' ''''\<rparr>))
      = Inl ''parse \"//foo:bar/\": invalid port \":bar\" after host''
   \<and> ServeHTTP testLib (testFlags False) testServer
        \<lparr>ReqHost = ''web.service.consul:80'', URL = pathUrl ''//foo:bar/'' ''''\<rparr>
      = Returned [CatalogQuery ''web'' '''', SetHeader ''Content-Type'' ''text/html'']"
proof -
  let ?req = "\<lparr>ReqHost = ''web.service.consul:80'', URL = pathUrl ''//foo:bar/'' ''''\<rparr>"
  let ?result = "[\<lparr>Hostname = ''n1'', Tags = [''v2'', ''HTTPS''], Port = 8443\<rparr>,
                  \<lparr>Hostname = ''n2'', Tags = [], Port = 80\<rparr>]"
  note h = no_probe_foobar(1) [of "''web.service.consul:80''" "''''"]
  note m = no_probe_foobar(2) [of "''web.service.consul:80''" "''''"]
  have r1: "customRoutes testServer (getHostname ?req) = None"
    by (simp only: getHostname_web no_route_web)
  have nosuf: "\<not> HasSuffix (getHostname ?req) (''.'' @ hostnameSuffix (testFlags False))"
    by (simp only: getHostname_web no_route_web simp_thms)
  then have r2: "HasSuffix (getHostname ?req) (''.'' @ hostnameSuffix (testFlags False))
              \<longrightarrow> customRoutes testServer
                    (TrimSuffix (getHostname ?req) (''.'' @ hostnameSuffix (testFlags False))) = None"
    by blast
  have off: "\<not> redirectToNomadUI (testFlags False)"
    by (simp add: testFlags_def)
  then have noui: "\<not> (redirectToNomadUI (testFlags False) \<and>
             (HasSuffix (getHostname ?req) (hostnameSuffix (testFlags False))
              \<or> getHostname ?req = nomadUIHostname (testFlags False)))"
    by blast
  have name: "fst (parseConsulAddress (getHostname ?req)) = ''web''"
    by (simp only: getHostname_web parse_web fst_conv)
  then have parsed: "fst (parseConsulAddress (getHostname ?req)) \<noteq> ''''"
    by simp
  have query: "queryConsulForHostname testLib testServer (getHostname ?req)
                 = ([CatalogQuery ''web'' ''''], Inr ?result)"
    by (simp only: getHostname_web query_web)
  have two: "2 \<le> length ?result"
    by simp
  have bad: "urlParse testLib (urlString testLib (URL ?req))
               = Inl ''parse \"//foo:bar/\": invalid port \":bar\" after host''"
    using parse_foobar by simp
  from multiple_results_build_failure_silent [OF h m r1 r2 noui parsed query two bad]
  have "ServeHTTP testLib (testFlags False) testServer ?req
          = Returned [CatalogQuery ''web'' '''', SetHeader ''Content-Type'' ''text/html'']"
    by simp
  with h m r1 nosuf off name query bad show ?thesis
    by blast
qed

section \<open>Catalog results: which hostname the URLs carry\<close>

text \<open>
  C6. When the request reaches the catalog and the request URL parses again, a result
  of exactly one option is answered by a redirect to the URL built with the request
  hostname, as \<open>getHostname\<close> returns it; a result of two or more options is answered
  by the listing, in which the URL of each option is built with the hostname of its
  node extended by \<open>addHostnameSuffix\<close>. In both cases the scheme and the port are
  those of the option.
\<close>

theorem single_request_hostname_multiple_node_hostnames:
  assumes "\<not> HasPrefix (TrimPrefix (Path (URL req)) ''/'') ''health''"
    and "\<not> HasPrefix (TrimPrefix (Path (URL req)) ''/'') ''metrics''"
    and "customRoutes s (getHostname req) = None"
    and "HasSuffix (getHostname req) (''.'' @ hostnameSuffix fl)
           \<longrightarrow> customRoutes s (TrimSuffix (getHostname req) (''.'' @ hostnameSuffix fl)) = None"
    and "\<not> (redirectToNomadUI fl \<and>
             (HasSuffix (getHostname req) (hostnameSuffix fl)
              \<or> getHostname req = nomadUIHostname fl))"
    and "parseConsulAddress (getHostname req) = (svcName, svcType)"
    and "svcName \<noteq> ''''"
    and "queryConsulForHostname lib s (getHostname req) = (queried, Inr result)"
    and "urlParse lib (urlString lib (URL req)) = Inr u"
  shows "(length result = 1 \<longrightarrow>
            ServeHTTP lib fl s req =
              Returned (queried @
                [Redirect (urlString lib
                   (u\<lparr>Scheme := guessScheme (result ! 0),
                      Host := getHostname req @ '':'' @ decimal (unat (Port (result ! 0)))\<rparr>))
                   307]))
         \<and> (2 \<le> length result \<longrightarrow>
            ServeHTTP lib fl s req =
              Returned (queried @
                [SetHeader ''Content-Type'' ''text/html'',
                 Execute (ResultsList svcName
                   (if length svcType > 0
                    then '' and port type <code>'' @ svcType @ ''</code>'' else '''')
                   (map (\<lambda>opt. optionRow fl opt
                           (u\<lparr>Scheme := guessScheme opt,
                              Host := addHostnameSuffix fl (Hostname opt) @ '':''
                                      @ decimal (unat (Port opt))\<rparr>)) result))]
                @ printQuickLinks fl (getHostname req)))"
proof -
  have reached: "ServeHTTP lib fl s req = serveService lib fl s req (getHostname req)"
    by (rule serveService_reached [OF assms(1-5)])
  have single: "serveService lib fl s req (getHostname req) =
              Returned (queried @
                [Redirect (urlString lib
                   (u\<lparr>Scheme := guessScheme (result ! 0),
                      Host := getHostname req @ '':'' @ decimal (unat (Port (result ! 0)))\<rparr>))
                   307])"
    if "length result = 1"
    using that assms(7)
    by (simp add: serveService_def assms(6,8) BuildURL_def buildUrlWithPort_Inr [OF assms(9)])
  have multi: "serveService lib fl s req (getHostname req) =
              Returned (queried @
                [SetHeader ''Content-Type'' ''text/html'',
                 Execute (ResultsList svcName
                   (if length svcType > 0
                    then '' and port type <code>'' @ svcType @ ''</code>'' else '''')
                   (map (\<lambda>opt. optionRow fl opt
                           (u\<lparr>Scheme := guessScheme opt,
                              Host := addHostnameSuffix fl (Hostname opt) @ '':''
                                      @ decimal (unat (Port opt))\<rparr>)) result))]
                @ printQuickLinks fl (getHostname req))"
    if "2 \<le> length result"
  proof -
    from that have len: "length result \<noteq> 1" "length result \<noteq> 0"
      by auto
    show ?thesis
      using len assms(7)
      by (simp add: serveService_def assms(6,8) buildRows_Inr [OF assms(9)] Let_def)
  qed
  show ?thesis
    using single multi by (simp add: reached)
qed

theorem single_request_hostname_multiple_node_hostnames_witness:
  "queryConsulForHostname testLib testServer
       (getHostname \<lparr>ReqHost = ''solo.service.consul'', URL = pathUrl ''/x'' ''q=1''\<rparr>)
     = ([CatalogQuery ''solo'' ''''], Inr [\<lparr>Hostname = ''n3'', Tags = [''http''], Port = 9000\<rparr>])
   \<and> urlParse testLib (urlString testLib (pathUrl ''/x'' ''q=1'')) = Inr (pathUrl ''/x'' ''q=1'')
   \<and> ServeHTTP testLib (testFlags False) testServer
        \<lparr>ReqHost = ''solo.service.consul'', URL = pathUrl ''/x'' ''q=1''\<rparr>
      = Returned [CatalogQuery ''solo'' '''',
                  Redirect ''http://solo.service.consul:9000/x?q=1'' 307]
   \<and> queryConsulForHostname testLib testServer
       (getHostname \<lparr>ReqHost = ''web.service.consul:80'', URL = pathUrl ''/x'' ''q=1''\<rparr>)
     = ([CatalogQuery ''web'' ''''],
        Inr [\<lparr>Hostname = ''n1'', Tags = [''v2'', ''HTTPS''], Port = 8443\<rparr>,
             \<lparr>Hostname = ''n2'', Tags = [], Port = 80\<rparr>])
   \<and> ServeHTTP testLib (testFlags False) testServer
        \<lparr>ReqHost = ''web.service.consul:80'', URL = pathUrl ''/x'' ''q=1''\<rparr>
      = Returned [CatalogQuery ''web'' '''', SetHeader ''Content-Type'' ''text/html'',
                  Execute (ResultsList ''web'' ''''
                    [\<lparr>rowUrl = \<lparr>Scheme = ''https'', Host = ''n1.node.example:8443'',
                                 Path = ''/x'', RawQuery = ''q=1'', Fragment = ''''\<rparr>,
                      rowFullHostname = ''n1.node.example'', rowPort = 8443,
                      rowTags = '' (v2, HTTPS)''\<rparr>,
                     \<lparr>rowUrl = \<lparr>Scheme = ''http'', Host = ''n2.node.example:80'',
                                 Path = ''/x'', RawQuery = ''q=1'', Fragment = ''''\<rparr>,
                      rowFullHostname = ''n2.node.example'', rowPort = 80, rowTags = ''''\<rparr>]),
                  Execute (QuickLinks ''web.service.consul'' ''web.service.consul'')]"
proof -
  let ?solo = "\<lparr>ReqHost = ''solo.service.consul'', URL = pathUrl ''/x'' ''q=1''\<rparr>"
  let ?web = "\<lparr>ReqHost = ''web.service.consul:80'', URL = pathUrl ''/x'' ''q=1''\<rparr>"
  have off: "\<not> (redirectToNomadUI (testFlags False) \<and> P)" for P
    by (simp add: testFlags_def)
  have url: "urlParse testLib (urlString testLib (URL ?solo)) = Inr (pathUrl ''/x'' ''q=1'')"
    "urlParse testLib (urlString testLib (URL ?web)) = Inr (pathUrl ''/x'' ''q=1'')"
    using parse_x_q by simp_all

  have s1: "customRoutes testServer (getHostname ?solo) = None"
    by (simp only: getHostname_solo no_route_solo)
  have s2: "HasSuffix (getHostname ?solo) (''.'' @ hostnameSuffix (testFlags False))
              \<longrightarrow> customRoutes testServer
                    (TrimSuffix (getHostname ?solo) (''.'' @ hostnameSuffix (testFlags False))) = None"
    by (simp only: getHostname_solo no_route_solo simp_thms)
  have sp: "parseConsulAddress (getHostname ?solo) = (''solo'', '''')"
    by (simp only: getHostname_solo parse_solo)
  have sq: "queryConsulForHostname testLib testServer (getHostname ?solo)
              = ([CatalogQuery ''solo'' ''''],
                 Inr [\<lparr>Hostname = ''n3'', Tags = [''http''], Port = 9000\<rparr>])"
    by (simp only: getHostname_solo query_solo)
  have solo: "ServeHTTP testLib (testFlags False) testServer ?solo
                = Returned [CatalogQuery ''solo'' '''',
                            Redirect ''http://solo.service.consul:9000/x?q=1'' 307]"
    using single_request_hostname_multiple_node_hostnames
            [OF no_probe_x(1) no_probe_x(2) s1 s2 off sp _ sq url(1)]
    by (simp add: getHostname_solo guessScheme_def ToLower_tags decimal_ports
        testLib_def netUrl_def netUrlString_def plainString_def pathUrl_def)

  have w1: "customRoutes testServer (getHostname ?web) = None"
    by (simp only: getHostname_web no_route_web)
  have w2: "HasSuffix (getHostname ?web) (''.'' @ hostnameSuffix (testFlags False))
              \<longrightarrow> customRoutes testServer
                    (TrimSuffix (getHostname ?web) (''.'' @ hostnameSuffix (testFlags False))) = None"
    by (simp only: getHostname_web no_route_web simp_thms)
  have wp: "parseConsulAddress (getHostname ?web) = (''web'', '''')"
    by (simp only: getHostname_web parse_web)
  have wq: "queryConsulForHostname testLib testServer (getHostname ?web)
              = ([CatalogQuery ''web'' ''''],
                 Inr [\<lparr>Hostname = ''n1'', Tags = [''v2'', ''HTTPS''], Port = 8443\<rparr>,
                      \<lparr>Hostname = ''n2'', Tags = [], Port = 80\<rparr>])"
    by (simp only: getHostname_web query_web)
  have web: "ServeHTTP testLib (testFlags False) testServer ?web
      = Returned [CatalogQuery ''web'' '''', SetHeader ''Content-Type'' ''text/html'',
                  Execute (ResultsList ''web'' ''''
                    [\<lparr>rowUrl = \<lparr>Scheme = ''https'', Host = ''n1.node.example:8443'',
                                 Path = ''/x'', RawQuery = ''q=1'', Fragment = ''''\<rparr>,
                      rowFullHostname = ''n1.node.example'', rowPort = 8443,
                      rowTags = '' (v2, HTTPS)''\<rparr>,
                     \<lparr>rowUrl = \<lparr>Scheme = ''http'', Host = ''n2.node.example:80'',
                                 Path = ''/x'', RawQuery = ''q=1'', Fragment = ''''\<rparr>,
                      rowFullHostname = ''n2.node.example'', rowPort = 80, rowTags = ''''\<rparr>]),
                  Execute (QuickLinks ''web.service.consul'' ''web.service.consul'')]"
    using single_request_hostname_multiple_node_hostnames
            [OF no_probe_x(1) no_probe_x(2) w1 w2 off wp _ wq url(2)]
    by (simp add: getHostname_web guessScheme_def ToLower_tags decimal_ports
        optionRow_def addHostnameSuffix_def printQuickLinks_def testFlags_def
        TrimPrefix_def HasPrefix_def pathUrl_def)
  from sq url(1) solo wq web show ?thesis
    by simp
qed

end
